theory Spec2Isabelle
  imports Main "HOL-Library.Word"
begin

section \<open>The student handlers of students-api\<close>

text \<open>
  The package \<open>internal/http/handlers/student\<close> holds three handlers, \<open>New\<close>,
  \<open>GetById\<close> and \<open>GetList\<close>. Each is a closure over a \<open>storage.Storage\<close> that
  receives a \<open>http.ResponseWriter\<close> and a \<open>*http.Request\<close>. The embedding makes the
  effects of one invocation explicit: the writes to the response writer, the calls to the
  validator and to the storage, and the state of the store behind the interface.
\<close>

subsection \<open>Values\<close>

type_synonym int64 = "64 word"

text \<open>Go's \<open>int\<close>, the type of \<open>student.Age\<close>, on a 64-bit target.\<close>

type_synonym go_int = "64 word"

text \<open>
  A Go \<open>error\<close> value, as far as the handlers observe one: the sentinel \<open>io.EOF\<close>, an
  error made of its text (\<open>errors.New\<close>, \<open>fmt.Errorf\<close> without \<open>%w\<close>), or an error
  with a text that wraps another one (what \<open>Unwrap\<close> returns). A \<open>nil\<close> error is
  \<open>None\<close> of \<open>go_error option\<close>.
\<close>

datatype go_error = io_EOF | errorString string | wrapError string go_error

fun err_Error :: "go_error \<Rightarrow> string" where
  "err_Error io_EOF = ''EOF''"
| "err_Error (errorString s) = s"
| "err_Error (wrapError s inner) = s"

text \<open>
  \<open>errors.Is(err, target)\<close>: \<open>err\<close> or an error on its \<open>Unwrap\<close> chain is the target.
  The handlers call it with the target \<open>io.EOF\<close> only.
\<close>

fun errors_Is :: "go_error \<Rightarrow> go_error \<Rightarrow> bool" where
  "errors_Is (wrapError s inner) target =
     (if wrapError s inner = target then True else errors_Is inner target)"
| "errors_Is err target = (err = target)"

text \<open>\<open>fmt.Errorf\<close> on a format without verbs, as in \<open>fmt.Errorf("empty body")\<close>.\<close>

definition fmt_Errorf :: "string \<Rightarrow> go_error" where
  "fmt_Errorf format = errorString format"

text \<open>
  A Go slice is \<open>nil\<close> or holds a sequence; both a \<open>nil\<close> slice and \<open>Slice []\<close> have
  length 0.
\<close>

datatype 'a slice = NilSlice | Slice "'a list"

fun elems :: "'a slice \<Rightarrow> 'a list" where
  "elems NilSlice = []"
| "elems (Slice xs) = xs"

text \<open>
  Modelled from the spec: \<open>types.Student\<close> (internal/types/types.go is not among the
  sources). The spec's data model gives the four fields; the handler reads \<open>student.Name\<close>,
  \<open>student.Email\<close> and \<open>student.Age\<close>, the storage assigns the identifier.
\<close>

record Student =
  Id :: int64
  Name :: string
  Email :: string
  Age :: go_int

text \<open>
  Modelled from the spec: \<open>response.Response\<close>, the error envelope
  \<open>{"status":"error","error":<string>}\<close> (internal/utils/response/response.go is not
  among the sources).
\<close>

record Response =
  Status :: string
  Error :: string

definition StatusError :: string where
  "StatusError = ''error''"

text \<open>
  Modelled from the spec: \<open>response.GeneralError\<close> wraps \<open>err\<close> into the envelope whose
  \<open>error\<close> is the error's text.
\<close>

definition GeneralError :: "go_error \<Rightarrow> Response" where
  "GeneralError err = \<lparr>Status = StatusError, Error = err_Error err\<rparr>"

text \<open>
  One entry of \<open>validator.ValidationErrors\<close>: the struct field and the tag it failed.
\<close>

datatype FieldError = FieldError (Field: string) (Tag: string)

fun strings_Join :: "string list \<Rightarrow> string \<Rightarrow> string" where
  "strings_Join [] sep = []"
| "strings_Join [x] sep = x"
| "strings_Join (x # y # ys) sep = x @ sep @ strings_Join (y # ys) sep"

text \<open>
  Modelled from the spec: \<open>response.ValidationError\<close> turns the per-field failures into
  one message each (field name and constraint), joins them into a single string and puts
  it into the general error shape. The spec fixes neither the wording of a message nor the
  separator; \<open>errMsgs\<close> is the list of messages before they are joined.
\<close>

definition errMsgs :: "FieldError list \<Rightarrow> string list" where
  "errMsgs errs = map (\<lambda>err. ''field '' @ Field err @ '' is '' @ Tag err) errs"

definition ValidationError :: "FieldError list \<Rightarrow> Response" where
  "ValidationError errs = \<lparr>Status = StatusError, Error = strings_Join (errMsgs errs) '', ''\<rparr>"

text \<open>
  Modelled from the spec: the validation tags of \<open>types.Student\<close> (name required, email
  required, age required). \<open>validator.New().Struct(student)\<close> walks the fields in the
  order of the struct; \<open>required\<close> fails on the zero value of the field's type, the empty
  string and the integer 0. The result is \<open>nil\<close> when no field fails.
\<close>

definition validator_Struct :: "Student \<Rightarrow> FieldError list option" where
  "validator_Struct student =
     (let errs =
        (if Name student = [] then [FieldError ''Name'' ''required''] else []) @
        (if Email student = [] then [FieldError ''Email'' ''required''] else []) @
        (if Age student = 0 then [FieldError ''Age'' ''required''] else [])
      in if errs = [] then None else Some errs)"

text \<open>The values the handlers hand to \<open>response.WriteJson\<close> as \<open>data\<close>.\<close>

datatype payload =
    PResponse Response
  | PError go_error
  | PStudent Student
  | PStudents "Student slice"
  | PMap "(string \<times> int64) list"

subsection \<open>The JSON encoding/json produces for the success payloads\<close>

datatype json =
    JNull
  | JNumber int
  | JString string
  | JArray "json list"
  | JObject "(string \<times> json) list"

text \<open>The Student JSON shape of the spec: \<open>{"id", "name", "email", "age"}\<close>.\<close>

definition marshal_Student :: "Student \<Rightarrow> json" where
  "marshal_Student s =
     JObject [(''id'', JNumber (sint (Id s))), (''name'', JString (Name s)),
              (''email'', JString (Email s)), (''age'', JNumber (sint (Age s)))]"

text \<open>
  A slice encodes as a JSON array, except that a \<open>nil\<close> slice encodes as the JSON value
  \<open>null\<close> (the documented rule of \<open>encoding/json\<close>).
\<close>

fun marshal_Students :: "Student slice \<Rightarrow> json" where
  "marshal_Students NilSlice = JNull"
| "marshal_Students (Slice xs) = JArray (map marshal_Student xs)"

definition marshal_Map :: "(string \<times> int64) list \<Rightarrow> json" where
  "marshal_Map m = JObject (map (\<lambda>(k, v). (k, JNumber (sint v))) m)"

definition marshal_Response :: "Response \<Rightarrow> json" where
  "marshal_Response resp =
     JObject [(''status'', JString (Status resp)), (''error'', JString (Error resp))]"

subsection \<open>Request, storage and the effects of a handler\<close>

record Request =
  Body :: string
  PathValues :: "(string \<times> string) list"

text \<open>\<open>r.PathValue(name)\<close>: the empty string when the pattern has no such wildcard.\<close>

definition PathValue :: "Request \<Rightarrow> string \<Rightarrow> string" where
  "PathValue r name = (case map_of (PathValues r) name of None \<Rightarrow> [] | Some v \<Rightarrow> v)"

text \<open>
  Modelled from the spec: the interface \<open>storage.Storage\<close> (internal/storage/storage.go
  is not among the sources), with the three methods the handlers call. A method returns
  its Go result pair, value and error, and the new state of the store \<open>'db\<close>.
\<close>

record 'db Storage =
  CreateStudent :: "string \<Rightarrow> string \<Rightarrow> go_int \<Rightarrow> 'db \<Rightarrow> (int64 \<times> go_error option) \<times> 'db"
  GetStudentById :: "int64 \<Rightarrow> 'db \<Rightarrow> (Student \<times> go_error option) \<times> 'db"
  GetStudents :: "'db \<Rightarrow> (Student slice \<times> go_error option) \<times> 'db"

datatype call =
    Call_Struct Student
  | Call_CreateStudent string string go_int
  | Call_GetStudentById int64
  | Call_GetStudents

text \<open>
  What one invocation of a handler has done so far: the responses written to \<open>w\<close> (status
  and payload, in order), the calls made to the validator and the storage (in order), and
  the store.
\<close>

record 'db state =
  Writes :: "(nat \<times> payload) list"
  Calls :: "call list"
  Store :: 'db

definition fresh :: "'db \<Rightarrow> 'db state" where
  "fresh db = \<lparr>Writes = [], Calls = [], Store = db\<rparr>"

definition StatusOK :: nat where "StatusOK = 200"
definition StatusCreated :: nat where "StatusCreated = 201"
definition StatusBadRequest :: nat where "StatusBadRequest = 400"
definition StatusInternalServerError :: nat where "StatusInternalServerError = 500"

text \<open>
  Modelled from the spec: \<open>response.WriteJson(w, status, data)\<close> serializes \<open>data\<close> to
  JSON and writes it verbatim with the given status code; it wraps nothing. The write is
  recorded as the status with the value handed over.
\<close>

definition WriteJson :: "nat \<Rightarrow> payload \<Rightarrow> 'db state \<Rightarrow> 'db state" where
  "WriteJson status data st = st\<lparr>Writes := Writes st @ [(status, data)]\<rparr>"

definition call_Struct :: "Student \<Rightarrow> 'db state \<Rightarrow> FieldError list option \<times> 'db state" where
  "call_Struct student st =
     (validator_Struct student, st\<lparr>Calls := Calls st @ [Call_Struct student]\<rparr>)"

definition call_CreateStudent ::
  "'db Storage \<Rightarrow> string \<Rightarrow> string \<Rightarrow> go_int \<Rightarrow> 'db state \<Rightarrow> (int64 \<times> go_error option) \<times> 'db state" where
  "call_CreateStudent storage name email age st =
     (case CreateStudent storage name email age (Store st) of
        (res, db') \<Rightarrow>
          (res, st\<lparr>Calls := Calls st @ [Call_CreateStudent name email age], Store := db'\<rparr>))"

definition call_GetStudentById ::
  "'db Storage \<Rightarrow> int64 \<Rightarrow> 'db state \<Rightarrow> (Student \<times> go_error option) \<times> 'db state" where
  "call_GetStudentById storage intId st =
     (case GetStudentById storage intId (Store st) of
        (res, db') \<Rightarrow> (res, st\<lparr>Calls := Calls st @ [Call_GetStudentById intId], Store := db'\<rparr>))"

definition call_GetStudents ::
  "'db Storage \<Rightarrow> 'db state \<Rightarrow> (Student slice \<times> go_error option) \<times> 'db state" where
  "call_GetStudents storage st =
     (case GetStudents storage (Store st) of
        (res, db') \<Rightarrow> (res, st\<lparr>Calls := Calls st @ [Call_GetStudents], Store := db'\<rparr>))"

subsection \<open>The handlers\<close>

text \<open>The white space of JSON: space, tab, line feed and carriage return.\<close>

definition isSpace :: "char \<Rightarrow> bool" where
  "isSpace c = (c = CHR '' '' \<or> c = CHR 0x09 \<or> c = CHR 0x0A \<or> c = CHR 0x0D)"

text \<open>
  \<open>json.NewDecoder(r.Body).Decode(&student)\<close>: on a body that holds no value, that is no
  byte at all or white space only, the decoder returns \<open>io.EOF\<close>. What it does with any
  other body is the parameter \<open>parse\<close>: an error, or the decoded Student.
\<close>

definition json_Decode :: "(string \<Rightarrow> go_error + Student) \<Rightarrow> string \<Rightarrow> go_error + Student" where
  "json_Decode parse body = (if list_all isSpace body then Inl io_EOF else parse body)"

text \<open>\<open>New\<close>, the handler of \<open>POST /api/students\<close>.\<close>

definition New ::
  "'db Storage \<Rightarrow> (string \<Rightarrow> go_error + Student) \<Rightarrow> Request \<Rightarrow> 'db state \<Rightarrow> 'db state" where
  "New storage parse r st =
     (case json_Decode parse (Body r) of
        Inl err \<Rightarrow>
          if errors_Is err io_EOF
          then WriteJson StatusBadRequest (PResponse (GeneralError (fmt_Errorf ''empty body''))) st
          else WriteJson StatusBadRequest (PResponse (GeneralError err)) st
      | Inr student \<Rightarrow>
          (case call_Struct student st of
             (Some validateErrs, st1) \<Rightarrow>
               WriteJson StatusBadRequest (PResponse (ValidationError validateErrs)) st1
           | (None, st1) \<Rightarrow>
               (case call_CreateStudent storage (Name student) (Email student) (Age student) st1 of
                  ((lastId, Some err), st2) \<Rightarrow> WriteJson StatusInternalServerError (PError err) st2
                | ((lastId, None), st2) \<Rightarrow> WriteJson StatusCreated (PMap [(''id'', lastId)]) st2)))"

text \<open>
  \<open>GetById\<close>, the handler of \<open>GET /api/students/{id}\<close>. \<open>strconv.ParseInt\<close> is the
  parameter \<open>ParseInt\<close>, called with base 10 and bit size 64. The branch for a storage
  error writes and does not return: the write of the Student follows it.
\<close>

definition GetById ::
  "'db Storage \<Rightarrow> (string \<Rightarrow> nat \<Rightarrow> nat \<Rightarrow> go_error + int64) \<Rightarrow> Request \<Rightarrow> 'db state \<Rightarrow> 'db state" where
  "GetById storage ParseInt r st =
     (let id = PathValue r ''id'' in
      case ParseInt id 10 64 of
        Inl err \<Rightarrow> WriteJson StatusBadRequest (PResponse (GeneralError err)) st
      | Inr intId \<Rightarrow>
          (case call_GetStudentById storage intId st of
             ((student, err), st1) \<Rightarrow>
               (let st2 = (case err of
                             Some e \<Rightarrow> WriteJson StatusInternalServerError (PResponse (GeneralError e)) st1
                           | None \<Rightarrow> st1)
                in WriteJson StatusOK (PStudent student) st2)))"

text \<open>\<open>GetList\<close>, the handler of \<open>GET /api/students\<close>.\<close>

definition GetList :: "'db Storage \<Rightarrow> Request \<Rightarrow> 'db state \<Rightarrow> 'db state" where
  "GetList storage r st =
     (case call_GetStudents storage st of
        ((students, Some err), st1) \<Rightarrow> WriteJson StatusInternalServerError (PError err) st1
      | ((students, None), st1) \<Rightarrow> WriteJson StatusOK (PStudents students) st1)"

subsection \<open>Storage backends for concrete instances\<close>

text \<open>The zero value \<open>types.Student{}\<close>.\<close>

definition zero_Student :: Student where
  "zero_Student = \<lparr>Id = 0, Name = [], Email = [], Age = 0\<rparr>"

text \<open>A backend on which every method fails with the given error and the zero value.\<close>

definition failing_storage :: "go_error \<Rightarrow> unit Storage" where
  "failing_storage err =
     \<lparr>CreateStudent = (\<lambda>name email age db. ((0, Some err), db)),
      GetStudentById = (\<lambda>intId db. ((zero_Student, Some err), db)),
      GetStudents = (\<lambda>db. ((NilSlice, Some err), db))\<rparr>"

text \<open>
  An in-memory backend, the store being the list of the Students created so far. The
  identifier is the position in the list. \<open>GetStudents\<close> accumulates as Go does with
  \<open>var students []types.Student\<close> and \<open>append\<close>: the slice stays \<open>nil\<close> when there is
  nothing to append.
\<close>

definition append_slice :: "'a slice \<Rightarrow> 'a \<Rightarrow> 'a slice" where
  "append_slice s x = Slice (elems s @ [x])"

definition memory_storage :: "Student list Storage" where
  "memory_storage =
     \<lparr>CreateStudent = (\<lambda>name email age db.
        (let lastId = of_nat (length db) + 1
         in ((lastId, None), db @ [\<lparr>Id = lastId, Name = name, Email = email, Age = age\<rparr>]))),
      GetStudentById = (\<lambda>intId db.
        (case find (\<lambda>s. Id s = intId) db of
           None \<Rightarrow> ((zero_Student, Some (errorString ''sql: no rows in result set'')), db)
         | Some s \<Rightarrow> ((s, None), db))),
      GetStudents = (\<lambda>db. ((foldl append_slice NilSlice db, None), db))\<rparr>"

text \<open>
  The standard-library calls on the inputs of the concrete instances below: a table of
  what \<open>Decode\<close> returns for the request bodies named in it, and of what
  \<open>strconv.ParseInt\<close> returns for the path identifiers \<open>1\<close>, \<open>99999\<close> and \<open>abc\<close>. The
  last line of a table stands for the one remaining input of the instances (the cut-off
  body \<open>{"name":\<close>, the identifier \<open>abc\<close>); the instances use no other input.
\<close>

definition ann :: Student where
  "ann = \<lparr>Id = 0, Name = ''Ann'', Email = ''ann@example.com'', Age = 20\<rparr>"

definition ann_body :: string where
  \<open>ann_body = ''{"name":"Ann","email":"ann@example.com","age":20}''\<close>

definition noname_body :: string where
  \<open>noname_body = ''{"name":"","email":"a@b.com","age":20}''\<close>

definition sample_parse :: "string \<Rightarrow> go_error + Student" where
  "sample_parse body =
     (if body = ann_body then Inr ann
      else if body = noname_body then Inr \<lparr>Id = 0, Name = [], Email = ''a@b.com'', Age = 20\<rparr>
      else if body = ''{}'' \<or> body = ''null'' then Inr zero_Student
      else Inl (errorString ''unexpected EOF''))"

definition sample_ParseInt :: "string \<Rightarrow> nat \<Rightarrow> nat \<Rightarrow> go_error + int64" where
  \<open>sample_ParseInt s base bitSize =
     (if s = ''1'' then Inr 1
      else if s = ''99999'' then Inr 99999
      else Inl (wrapError (''strconv.ParseInt: parsing "'' @ s @ ''": invalid syntax'')
                  (errorString ''invalid syntax'')))\<close>

lemmas status_defs = StatusOK_def StatusCreated_def StatusBadRequest_def
  StatusInternalServerError_def

lemmas effect_defs = call_Struct_def call_CreateStudent_def call_GetStudentById_def
  call_GetStudents_def WriteJson_def fresh_def

section \<open>GetList\<close>

text \<open>
  C3. When the storage list call returns an error, GetList writes one response: status
  500 with the error value itself as the body. The body is not the general error envelope
  (no \<open>response.Response\<close> is written), nothing else is written, and the list call is the
  only call made.
\<close>

theorem GetList_storage_error:
  assumes "GetStudents storage db = ((students, Some err), db')"
  shows "GetList storage r (fresh db) =
           \<lparr>Writes = [(500, PError err)], Calls = [Call_GetStudents], Store = db'\<rparr>
         \<and> (\<forall>status resp. (status, PResponse resp) \<notin> set (Writes (GetList storage r (fresh db))))
         \<and> length (Writes (GetList storage r (fresh db))) = 1"
  using assms by (simp add: GetList_def effect_defs status_defs)

theorem GetList_storage_error_witness:
  "GetList (failing_storage (errorString ''database is locked''))
     \<lparr>Body = [], PathValues = []\<rparr> (fresh ()) =
     \<lparr>Writes = [(500, PError (errorString ''database is locked''))],
      Calls = [Call_GetStudents], Store = ()\<rparr>"
  using GetList_storage_error [of "failing_storage (errorString ''database is locked'')" "()"
      NilSlice "errorString ''database is locked''" "()" "\<lparr>Body = [], PathValues = []\<rparr>"]
  by (simp add: failing_storage_def)

text \<open>
  C9, as the handler has it. When the storage list call succeeds, GetList writes one
  response, status 200 with the slice the storage returned as the body, and no error. The
  body of an empty slice that is not \<open>nil\<close> is the empty JSON array; the body of a \<open>nil\<close>
  slice, which is an empty sequence too, is the JSON value \<open>null\<close>.
\<close>

theorem GetList_success:
  assumes "GetStudents storage db = ((students, None), db')"
  shows "GetList storage r (fresh db) =
           \<lparr>Writes = [(200, PStudents students)], Calls = [Call_GetStudents], Store = db'\<rparr>
         \<and> (case students of
               Slice xs \<Rightarrow> marshal_Students students = JArray (map marshal_Student xs)
             | NilSlice \<Rightarrow> marshal_Students students = JNull)
         \<and> marshal_Students (Slice []) = JArray []"
  using assms by (simp add: GetList_def effect_defs status_defs split: slice.splits)

theorem GetList_success_witness:
  "GetList memory_storage \<lparr>Body = [], PathValues = []\<rparr>
     (fresh [\<lparr>Id = 1, Name = ''Ann'', Email = ''ann@example.com'', Age = 20\<rparr>]) =
     \<lparr>Writes = [(200, PStudents (Slice [\<lparr>Id = 1, Name = ''Ann'', Email = ''ann@example.com'', Age = 20\<rparr>]))],
      Calls = [Call_GetStudents],
      Store = [\<lparr>Id = 1, Name = ''Ann'', Email = ''ann@example.com'', Age = 20\<rparr>]\<rparr>"
  using GetList_success [of memory_storage
      "[\<lparr>Id = 1, Name = ''Ann'', Email = ''ann@example.com'', Age = 20\<rparr>]"
      "Slice [\<lparr>Id = 1, Name = ''Ann'', Email = ''ann@example.com'', Age = 20\<rparr>]"
      "[\<lparr>Id = 1, Name = ''Ann'', Email = ''ann@example.com'', Age = 20\<rparr>]"
      "\<lparr>Body = [], PathValues = []\<rparr>"]
  by (simp add: memory_storage_def append_slice_def)

text \<open>
  C9 as stated fails on a store without Students whose list call returns a \<open>nil\<close> slice
  and no error: the sequence is empty, the response is 200, and its body is \<open>null\<close>, not
  the empty array.
\<close>

theorem GetList_empty_counterexample:
  "GetStudents memory_storage [] = ((NilSlice, None), [])
   \<and> elems (NilSlice :: Student slice) = []
   \<and> Writes (GetList memory_storage \<lparr>Body = [], PathValues = []\<rparr> (fresh [])) =
       [(200, PStudents NilSlice)]
   \<and> marshal_Students NilSlice = JNull
   \<and> marshal_Students NilSlice \<noteq> JArray []"
  by (simp add: GetList_def effect_defs status_defs memory_storage_def)

section \<open>New\<close>

text \<open>What New does once the decoder has returned an error.\<close>

lemma New_decode_error:
  assumes "json_Decode parse (Body r) = Inl err"
  shows "New storage parse r (fresh db) =
           \<lparr>Writes = [(400, PResponse (GeneralError
                        (if errors_Is err io_EOF then fmt_Errorf ''empty body'' else err)))],
            Calls = [], Store = db\<rparr>"
  using assms by (simp add: New_def effect_defs status_defs)

text \<open>What New does with a decoded Student that the validator rejects.\<close>

lemma New_validation_error:
  assumes "json_Decode parse (Body r) = Inr student"
    and "validator_Struct student = Some validateErrs"
  shows "New storage parse r (fresh db) =
           \<lparr>Writes = [(400, PResponse (ValidationError validateErrs))],
            Calls = [Call_Struct student], Store = db\<rparr>"
  using assms by (simp add: New_def effect_defs status_defs)

text \<open>What New does with a decoded Student that the validator accepts.\<close>

lemma New_create:
  assumes "json_Decode parse (Body r) = Inr student"
    and "validator_Struct student = None"
    and "CreateStudent storage (Name student) (Email student) (Age student) db = ((lastId, err), db')"
  shows "New storage parse r (fresh db) =
           \<lparr>Writes = [case err of
                         Some e \<Rightarrow> (500, PError e)
                       | None \<Rightarrow> (201, PMap [(''id'', lastId)])],
            Calls = [Call_Struct student,
                     Call_CreateStudent (Name student) (Email student) (Age student)],
            Store = db'\<rparr>"
  using assms by (simp add: New_def effect_defs status_defs split: option.splits)

lemma validator_Struct_None:
  "validator_Struct student = None \<longleftrightarrow> Name student \<noteq> [] \<and> Email student \<noteq> [] \<and> Age student \<noteq> 0"
  by (simp add: validator_Struct_def Let_def)

lemma json_Decode_Cons:
  assumes "\<not> isSpace c"
  shows "json_Decode parse (c # cs) = parse (c # cs)"
  using assms by (simp add: json_Decode_def)

lemma json_Decode_blank:
  assumes "list_all isSpace body"
  shows "json_Decode parse body = Inl io_EOF"
  using assms by (simp add: json_Decode_def)

lemma Response_eqI:
  assumes "Status resp = a" and "Error resp = b"
  shows "resp = \<lparr>Status = a, Error = b\<rparr>"
  using assms by (cases resp) simp

text \<open>
  C4, as the handler has it. On a request whose body is empty, New writes one response:
  status 400 with the error envelope whose message is exactly "empty body"; neither the
  validator nor the storage is called. The message does not set the empty body apart
  from every other decode failure: New writes it whenever the decode error is \<open>io.EOF\<close>,
  which is also the error of a body of white space only. A decode failure with any other
  error gets the text of that error as its message, and so a response that differs from
  the one for the empty body whenever that text is not "empty body" itself.
\<close>

theorem New_empty_body:
  assumes "Body r = []"
  shows "New storage parse r (fresh db) =
           \<lparr>Writes = [(400, PResponse \<lparr>Status = ''error'', Error = ''empty body''\<rparr>)],
            Calls = [], Store = db\<rparr>
         \<and> (\<forall>r'. list_all isSpace (Body r') \<longrightarrow>
               New storage parse r' (fresh db) = New storage parse r (fresh db))
         \<and> (\<forall>r' err. json_Decode parse (Body r') = Inl err \<and> errors_Is err io_EOF \<longrightarrow>
               New storage parse r' (fresh db) = New storage parse r (fresh db))
         \<and> (\<forall>r' err. json_Decode parse (Body r') = Inl err \<and> \<not> errors_Is err io_EOF \<longrightarrow>
               Writes (New storage parse r' (fresh db)) =
                 [(400, PResponse \<lparr>Status = ''error'', Error = err_Error err\<rparr>)])
         \<and> (\<forall>r' err. json_Decode parse (Body r') = Inl err \<and> \<not> errors_Is err io_EOF
                 \<and> err_Error err \<noteq> ''empty body'' \<longrightarrow>
               Writes (New storage parse r' (fresh db)) \<noteq> Writes (New storage parse r (fresh db)))"
proof -
  have eof: "json_Decode parse (Body r) = Inl io_EOF"
    using assms by (simp add: json_Decode_def)
  have own: "New storage parse r (fresh db) =
          \<lparr>Writes = [(400, PResponse \<lparr>Status = ''error'', Error = ''empty body''\<rparr>)],
           Calls = [], Store = db\<rparr>"
    using New_decode_error [OF eof, of storage db]
    by (simp add: GeneralError_def StatusError_def fmt_Errorf_def)
  have same: "New storage parse r' (fresh db) = New storage parse r (fresh db)"
    if "json_Decode parse (Body r') = Inl err" and "errors_Is err io_EOF" for r' err
    using New_decode_error [OF that(1), of storage db] that(2) own
    by (simp add: GeneralError_def StatusError_def fmt_Errorf_def)
  have blank: "New storage parse r' (fresh db) = New storage parse r (fresh db)"
    if "list_all isSpace (Body r')" for r'
    using same [OF json_Decode_blank [OF that]] by simp
  have other: "Writes (New storage parse r' (fresh db)) =
        [(400, PResponse \<lparr>Status = ''error'', Error = err_Error err\<rparr>)]"
    if "json_Decode parse (Body r') = Inl err" and "\<not> errors_Is err io_EOF" for r' err
    using New_decode_error [OF that(1), of storage db] that(2)
    by (simp add: GeneralError_def StatusError_def)
  have differ: "Writes (New storage parse r' (fresh db)) \<noteq> Writes (New storage parse r (fresh db))"
    if "json_Decode parse (Body r') = Inl err" and "\<not> errors_Is err io_EOF"
      and "err_Error err \<noteq> ''empty body''" for r' err
    using other [OF that(1,2)] that(3) own by simp
  have c2: "\<forall>r'. list_all isSpace (Body r') \<longrightarrow>
      New storage parse r' (fresh db) = New storage parse r (fresh db)"
    using blank by blast
  have c3: "\<forall>r' err. json_Decode parse (Body r') = Inl err \<and> errors_Is err io_EOF \<longrightarrow>
      New storage parse r' (fresh db) = New storage parse r (fresh db)"
    using same by blast
  have c4: "\<forall>r' err. json_Decode parse (Body r') = Inl err \<and> \<not> errors_Is err io_EOF \<longrightarrow>
      Writes (New storage parse r' (fresh db)) =
        [(400, PResponse \<lparr>Status = ''error'', Error = err_Error err\<rparr>)]"
    using other by blast
  have c5: "\<forall>r' err. json_Decode parse (Body r') = Inl err \<and> \<not> errors_Is err io_EOF
        \<and> err_Error err \<noteq> ''empty body'' \<longrightarrow>
      Writes (New storage parse r' (fresh db)) \<noteq> Writes (New storage parse r (fresh db))"
    using differ by blast
  from own c2 c3 c4 c5 show ?thesis by (intro conjI)
qed

theorem New_empty_body_witness:
  \<open>Body \<lparr>Body = [], PathValues = []\<rparr> = []
   \<and> New memory_storage sample_parse \<lparr>Body = [], PathValues = []\<rparr> (fresh []) =
       \<lparr>Writes = [(400, PResponse \<lparr>Status = ''error'', Error = ''empty body''\<rparr>)],
        Calls = [], Store = []\<rparr>
   \<and> Writes (New memory_storage sample_parse \<lparr>Body = ''{"name":'', PathValues = []\<rparr> (fresh [])) =
       [(400, PResponse \<lparr>Status = ''error'', Error = ''unexpected EOF''\<rparr>)]\<close>
proof -
  have dec: \<open>json_Decode sample_parse (Body \<lparr>Body = ''{"name":'', PathValues = []\<rparr>) =
      Inl (errorString ''unexpected EOF'')\<close>
    by (simp add: json_Decode_Cons isSpace_def sample_parse_def ann_body_def noname_body_def)
  have neof: "\<not> errors_Is (errorString ''unexpected EOF'') io_EOF"
    by simp
  have e: "Body \<lparr>Body = [], PathValues = []\<rparr> = []"
    by simp
  note t = New_empty_body [OF e, of memory_storage sample_parse "[]"]
  from t have own: "New memory_storage sample_parse \<lparr>Body = [], PathValues = []\<rparr> (fresh []) =
      \<lparr>Writes = [(400, PResponse \<lparr>Status = ''error'', Error = ''empty body''\<rparr>)],
       Calls = [], Store = []\<rparr>"
    by (rule conjunct1)
  from t have "\<forall>r' err. json_Decode sample_parse (Body r') = Inl err \<and> \<not> errors_Is err io_EOF \<longrightarrow>
      Writes (New memory_storage sample_parse r' (fresh [])) =
        [(400, PResponse \<lparr>Status = ''error'', Error = err_Error err\<rparr>)]"
    by (elim conjE)
  with dec neof have \<open>Writes (New memory_storage sample_parse
      \<lparr>Body = ''{"name":'', PathValues = []\<rparr> (fresh [])) =
      [(400, PResponse \<lparr>Status = ''error'', Error = err_Error (errorString ''unexpected EOF'')\<rparr>)]\<close>
    by blast
  with e own show ?thesis by simp
qed

text \<open>
  C4 as stated fails on a body of one space: the body is not empty, decoding fails (with
  \<open>io.EOF\<close>), and the response is the very response of the empty body, message
  "empty body" included. The message is therefore not distinct from the one of every
  other decode failure.
\<close>

theorem New_empty_body_counterexample:
  "Body \<lparr>Body = '' '', PathValues = []\<rparr> \<noteq> []
   \<and> json_Decode sample_parse (Body \<lparr>Body = '' '', PathValues = []\<rparr>) = Inl io_EOF
   \<and> New memory_storage sample_parse \<lparr>Body = '' '', PathValues = []\<rparr> (fresh []) =
       \<lparr>Writes = [(400, PResponse \<lparr>Status = ''error'', Error = ''empty body''\<rparr>)],
        Calls = [], Store = []\<rparr>
   \<and> New memory_storage sample_parse \<lparr>Body = '' '', PathValues = []\<rparr> (fresh []) =
       New memory_storage sample_parse \<lparr>Body = [], PathValues = []\<rparr> (fresh [])"
  by (simp add: New_def json_Decode_def isSpace_def effect_defs status_defs
      GeneralError_def StatusError_def fmt_Errorf_def)

text \<open>
  C8, as the handler has it. On a request whose body is not empty and on which decoding
  fails with an error that is not \<open>io.EOF\<close>, New writes one response: status 400 with the
  general error envelope carrying the text of the decode error. No call is made: neither
  the validator nor the storage runs. Such a body holds more than white space.
\<close>

theorem New_malformed_body:
  assumes "Body r \<noteq> []"
    and "json_Decode parse (Body r) = Inl err"
    and "\<not> errors_Is err io_EOF"
  shows "New storage parse r (fresh db) =
           \<lparr>Writes = [(400, PResponse \<lparr>Status = ''error'', Error = err_Error err\<rparr>)],
            Calls = [], Store = db\<rparr>
         \<and> \<not> list_all isSpace (Body r)
         \<and> parse (Body r) = Inl err"
proof -
  have nb: "\<not> list_all isSpace (Body r)"
  proof
    assume "list_all isSpace (Body r)"
    from json_Decode_blank [OF this, of parse] assms(2,3) show False by simp
  qed
  then have "parse (Body r) = Inl err"
    using assms(2) by (simp add: json_Decode_def)
  with nb New_decode_error [OF assms(2), of storage db] assms(3)
  show ?thesis by (simp add: GeneralError_def StatusError_def)
qed

theorem New_malformed_body_witness:
  \<open>New memory_storage sample_parse \<lparr>Body = ''{"name":'', PathValues = []\<rparr> (fresh []) =
     \<lparr>Writes = [(400, PResponse \<lparr>Status = ''error'', Error = ''unexpected EOF''\<rparr>)],
      Calls = [], Store = []\<rparr>\<close>
proof -
  have ne: \<open>Body \<lparr>Body = ''{"name":'', PathValues = []\<rparr> \<noteq> []\<close>
    by simp
  have dec: \<open>json_Decode sample_parse (Body \<lparr>Body = ''{"name":'', PathValues = []\<rparr>) =
      Inl (errorString ''unexpected EOF'')\<close>
    by (simp add: json_Decode_Cons isSpace_def sample_parse_def ann_body_def noname_body_def)
  have neof: "\<not> errors_Is (errorString ''unexpected EOF'') io_EOF"
    by simp
  from New_malformed_body [OF ne dec neof, of memory_storage "[]"] show ?thesis by simp
qed

text \<open>
  C8 as stated fails on a body that is a single line feed: the body is not empty and
  decoding fails, the decode error being \<open>io.EOF\<close>; the response carries the message
  "empty body", not the decode error, whose text is "EOF".
\<close>

theorem New_malformed_body_counterexample:
  "Body \<lparr>Body = [CHR 0x0A], PathValues = []\<rparr> \<noteq> []
   \<and> json_Decode sample_parse (Body \<lparr>Body = [CHR 0x0A], PathValues = []\<rparr>) = Inl io_EOF
   \<and> New memory_storage sample_parse \<lparr>Body = [CHR 0x0A], PathValues = []\<rparr> (fresh []) =
       \<lparr>Writes = [(400, PResponse \<lparr>Status = ''error'', Error = ''empty body''\<rparr>)],
        Calls = [], Store = []\<rparr>
   \<and> GeneralError io_EOF = \<lparr>Status = ''error'', Error = ''EOF''\<rparr>
   \<and> Writes (New memory_storage sample_parse \<lparr>Body = [CHR 0x0A], PathValues = []\<rparr> (fresh [])) \<noteq>
       [(400, PResponse (GeneralError io_EOF))]"
  by (simp add: New_def json_Decode_def isSpace_def effect_defs status_defs
      GeneralError_def StatusError_def fmt_Errorf_def)

text \<open>
  C6. On a request whose body decodes into a Student that breaks a field rule (empty
  name, empty email or age 0), New writes one response: status 400 with the validation
  error envelope. The envelope is made of one message for each field that breaks its
  rule, in the order name, email, age, and of no other message: its text is these
  messages, each of them once, with the separator between two of them. The validator is
  the only call: the storage create operation is not invoked, and the store is unchanged.
\<close>

theorem New_validation_rejects:
  assumes "json_Decode parse (Body r) = Inr student"
    and "Name student = [] \<or> Email student = [] \<or> Age student = 0"
  shows "New storage parse r (fresh db) =
           \<lparr>Writes = [(400, PResponse \<lparr>Status = ''error'', Error =
               (if Name student = [] then ''field Name is required'' else []) @
               (if Name student = [] \<and> (Email student = [] \<or> Age student = 0) then '', '' else []) @
               (if Email student = [] then ''field Email is required'' else []) @
               (if Email student = [] \<and> Age student = 0 then '', '' else []) @
               (if Age student = 0 then ''field Age is required'' else [])\<rparr>)],
            Calls = [Call_Struct student], Store = db\<rparr>
         \<and> (\<exists>errs.
               New storage parse r (fresh db) =
                 \<lparr>Writes = [(400, PResponse (ValidationError errs))],
                  Calls = [Call_Struct student], Store = db\<rparr>
               \<and> map Field errs =
                   filter (\<lambda>f. f = ''Name'' \<and> Name student = [] \<or>
                                f = ''Email'' \<and> Email student = [] \<or>
                                f = ''Age'' \<and> Age student = 0)
                     [''Name'', ''Email'', ''Age'']
               \<and> length (errMsgs errs) = length errs
               \<and> errMsgs errs = map (\<lambda>f. ''field '' @ f @ '' is required'') (map Field errs)
               \<and> Status (ValidationError errs) = ''error''
               \<and> Error (ValidationError errs) = strings_Join (errMsgs errs) '', '')"
proof -
  from assms(2) obtain errs where errs: "validator_Struct student = Some errs"
    by (auto simp: validator_Struct_def Let_def)
  have fields: "map Field errs =
      filter (\<lambda>f. f = ''Name'' \<and> Name student = [] \<or>
                   f = ''Email'' \<and> Email student = [] \<or>
                   f = ''Age'' \<and> Age student = 0)
        [''Name'', ''Email'', ''Age'']"
    using errs by (auto simp: validator_Struct_def Let_def split: if_splits)
  have msgs: "errMsgs errs = map (\<lambda>f. ''field '' @ f @ '' is required'') (map Field errs)"
    using errs by (auto simp: validator_Struct_def Let_def errMsgs_def split: if_splits)
  have joined: "Error (ValidationError errs) =
      (if Name student = [] then ''field Name is required'' else []) @
      (if Name student = [] \<and> (Email student = [] \<or> Age student = 0) then '', '' else []) @
      (if Email student = [] then ''field Email is required'' else []) @
      (if Email student = [] \<and> Age student = 0 then '', '' else []) @
      (if Age student = 0 then ''field Age is required'' else [])"
    using errs
    by (auto simp: validator_Struct_def Let_def errMsgs_def ValidationError_def split: if_splits)
  have st: "Status (ValidationError errs) = ''error''"
    by (simp add: ValidationError_def StatusError_def)
  have join: "Error (ValidationError errs) = strings_Join (errMsgs errs) '', ''"
    by (simp add: ValidationError_def)
  have len: "length (errMsgs errs) = length errs"
    by (simp add: errMsgs_def)
  have new: "New storage parse r (fresh db) =
          \<lparr>Writes = [(400, PResponse (ValidationError errs))],
           Calls = [Call_Struct student], Store = db\<rparr>"
    by (rule New_validation_error [OF assms(1) errs])
  have explicit: "New storage parse r (fresh db) =
           \<lparr>Writes = [(400, PResponse \<lparr>Status = ''error'', Error =
               (if Name student = [] then ''field Name is required'' else []) @
               (if Name student = [] \<and> (Email student = [] \<or> Age student = 0) then '', '' else []) @
               (if Email student = [] then ''field Email is required'' else []) @
               (if Email student = [] \<and> Age student = 0 then '', '' else []) @
               (if Age student = 0 then ''field Age is required'' else [])\<rparr>)],
            Calls = [Call_Struct student], Store = db\<rparr>"
    unfolding new Response_eqI [OF st joined, symmetric] ..
  from new fields len msgs st join have "\<exists>errs.
      New storage parse r (fresh db) =
        \<lparr>Writes = [(400, PResponse (ValidationError errs))],
         Calls = [Call_Struct student], Store = db\<rparr>
      \<and> map Field errs =
          filter (\<lambda>f. f = ''Name'' \<and> Name student = [] \<or>
                       f = ''Email'' \<and> Email student = [] \<or>
                       f = ''Age'' \<and> Age student = 0)
            [''Name'', ''Email'', ''Age'']
      \<and> length (errMsgs errs) = length errs
      \<and> errMsgs errs = map (\<lambda>f. ''field '' @ f @ '' is required'') (map Field errs)
      \<and> Status (ValidationError errs) = ''error''
      \<and> Error (ValidationError errs) = strings_Join (errMsgs errs) '', ''"
    by (intro exI [of _ errs] conjI)
  with explicit show ?thesis by (rule conjI)
qed

theorem New_validation_rejects_witness:
  "New memory_storage sample_parse \<lparr>Body = noname_body, PathValues = []\<rparr> (fresh []) =
     \<lparr>Writes = [(400, PResponse \<lparr>Status = ''error'', Error = ''field Name is required''\<rparr>)],
      Calls = [Call_Struct \<lparr>Id = 0, Name = [], Email = ''a@b.com'', Age = 20\<rparr>],
      Store = []\<rparr>
   \<and> New memory_storage sample_parse \<lparr>Body = ''{}'', PathValues = []\<rparr> (fresh []) =
     \<lparr>Writes = [(400, PResponse \<lparr>Status = ''error'',
          Error = ''field Name is required, field Email is required, field Age is required''\<rparr>)],
      Calls = [Call_Struct \<lparr>Id = 0, Name = [], Email = [], Age = 0\<rparr>],
      Store = []\<rparr>"
proof -
  have dec1: "json_Decode sample_parse (Body \<lparr>Body = noname_body, PathValues = []\<rparr>) =
      Inr \<lparr>Id = 0, Name = [], Email = ''a@b.com'', Age = 20\<rparr>"
    by (simp add: json_Decode_Cons isSpace_def sample_parse_def ann_body_def noname_body_def)
  have viol1: "Name \<lparr>Id = 0, Name = [], Email = ''a@b.com'', Age = (20::go_int)\<rparr> = [] \<or>
      Email \<lparr>Id = 0, Name = [], Email = ''a@b.com'', Age = (20::go_int)\<rparr> = [] \<or>
      Age \<lparr>Id = 0, Name = [], Email = ''a@b.com'', Age = (20::go_int)\<rparr> = 0"
    by simp
  have w1: "New memory_storage sample_parse \<lparr>Body = noname_body, PathValues = []\<rparr> (fresh []) =
     \<lparr>Writes = [(400, PResponse \<lparr>Status = ''error'', Error = ''field Name is required''\<rparr>)],
      Calls = [Call_Struct \<lparr>Id = 0, Name = [], Email = ''a@b.com'', Age = 20\<rparr>],
      Store = []\<rparr>"
    using New_validation_rejects [OF dec1 viol1, of memory_storage "[]", THEN conjunct1]
    by simp
  have dec2: "json_Decode sample_parse (Body \<lparr>Body = ''{}'', PathValues = []\<rparr>) =
      Inr \<lparr>Id = 0, Name = [], Email = [], Age = 0\<rparr>"
    by (simp add: json_Decode_Cons isSpace_def sample_parse_def ann_body_def noname_body_def
        zero_Student_def)
  have viol2: "Name \<lparr>Id = 0, Name = [], Email = [], Age = (0::go_int)\<rparr> = [] \<or>
      Email \<lparr>Id = 0, Name = [], Email = [], Age = (0::go_int)\<rparr> = [] \<or>
      Age \<lparr>Id = 0, Name = [], Email = [], Age = (0::go_int)\<rparr> = 0"
    by simp
  have w2: "New memory_storage sample_parse \<lparr>Body = ''{}'', PathValues = []\<rparr> (fresh []) =
     \<lparr>Writes = [(400, PResponse \<lparr>Status = ''error'',
          Error = ''field Name is required, field Email is required, field Age is required''\<rparr>)],
      Calls = [Call_Struct \<lparr>Id = 0, Name = [], Email = [], Age = 0\<rparr>],
      Store = []\<rparr>"
    using New_validation_rejects [OF dec2 viol2, of memory_storage "[]", THEN conjunct1]
    by simp
  from w1 w2 show ?thesis by (rule conjI)
qed

text \<open>
  C5. On a request that decodes and validates and whose storage create call succeeds
  with the identifier \<open>lastId\<close>, New writes one response: status 201 with the map
  \<open>{"id": lastId}\<close> as the body, the identifier being the one the storage returned.
\<close>

theorem New_created:
  assumes "json_Decode parse (Body r) = Inr student"
    and "validator_Struct student = None"
    and "CreateStudent storage (Name student) (Email student) (Age student) db =
           ((lastId, None), db')"
  shows "New storage parse r (fresh db) =
           \<lparr>Writes = [(201, PMap [(''id'', lastId)])],
            Calls = [Call_Struct student,
                     Call_CreateStudent (Name student) (Email student) (Age student)],
            Store = db'\<rparr>
         \<and> marshal_Map [(''id'', lastId)] = JObject [(''id'', JNumber (sint lastId))]"
  using New_create [OF assms] by (simp add: marshal_Map_def)

theorem New_created_witness:
  "New memory_storage sample_parse \<lparr>Body = ann_body, PathValues = []\<rparr> (fresh []) =
     \<lparr>Writes = [(201, PMap [(''id'', 1)])],
      Calls = [Call_Struct ann, Call_CreateStudent ''Ann'' ''ann@example.com'' 20],
      Store = [\<lparr>Id = 1, Name = ''Ann'', Email = ''ann@example.com'', Age = 20\<rparr>]\<rparr>"
proof -
  have dec: "json_Decode sample_parse (Body \<lparr>Body = ann_body, PathValues = []\<rparr>) = Inr ann"
    by (simp add: json_Decode_Cons isSpace_def sample_parse_def ann_body_def)
  have val: "validator_Struct ann = None"
    by (simp add: validator_Struct_def ann_def)
  have cre: "CreateStudent memory_storage (Name ann) (Email ann) (Age ann) [] =
      ((1, None), [\<lparr>Id = 1, Name = ''Ann'', Email = ''ann@example.com'', Age = 20\<rparr>])"
    by (simp add: memory_storage_def ann_def)
  from New_created [OF dec val cre] show ?thesis by (simp add: ann_def)
qed

text \<open>
  C2, as the handler has it. On a request that decodes and validates and whose storage
  create call returns an error, New writes one response with status 500, and its body is
  the error value itself (line 47 hands \<open>err\<close> to \<open>response.WriteJson\<close>, not
  \<open>response.GeneralError(err)\<close>): no error envelope is written.
\<close>

theorem New_storage_error_raw:
  assumes "json_Decode parse (Body r) = Inr student"
    and "validator_Struct student = None"
    and "CreateStudent storage (Name student) (Email student) (Age student) db =
           ((lastId, Some err), db')"
  shows "New storage parse r (fresh db) =
           \<lparr>Writes = [(500, PError err)],
            Calls = [Call_Struct student,
                     Call_CreateStudent (Name student) (Email student) (Age student)],
            Store = db'\<rparr>
         \<and> (\<forall>status resp. (status, PResponse resp) \<notin> set (Writes (New storage parse r (fresh db))))"
  using New_create [OF assms] by simp

theorem New_storage_error_raw_witness:
  "New (failing_storage (errorString ''database is locked'')) sample_parse
     \<lparr>Body = ann_body, PathValues = []\<rparr> (fresh ()) =
     \<lparr>Writes = [(500, PError (errorString ''database is locked''))],
      Calls = [Call_Struct ann, Call_CreateStudent ''Ann'' ''ann@example.com'' 20],
      Store = ()\<rparr>
   \<and> PError (errorString ''database is locked'') \<noteq>
       PResponse (GeneralError (errorString ''database is locked''))"
proof -
  have dec: "json_Decode sample_parse (Body \<lparr>Body = ann_body, PathValues = []\<rparr>) = Inr ann"
    by (simp add: json_Decode_Cons isSpace_def sample_parse_def ann_body_def)
  have val: "validator_Struct ann = None"
    by (simp add: validator_Struct_def ann_def)
  have cre: "CreateStudent (failing_storage (errorString ''database is locked''))
      (Name ann) (Email ann) (Age ann) () = ((0, Some (errorString ''database is locked'')), ())"
    by (simp add: failing_storage_def)
  from New_storage_error_raw [OF dec val cre] show ?thesis by (simp add: ann_def)
qed

text \<open>
  C10. Every call of \<open>CreateStudent\<close> that New makes has the fields of the decoded
  Student as its arguments, and that Student has passed the validator: the name and the
  email are not empty and the age is not 0.
\<close>

theorem New_create_arguments:
  "\<forall>name email age.
     Call_CreateStudent name email age \<in> set (Calls (New storage parse r (fresh db))) \<longrightarrow>
       (\<exists>student. json_Decode parse (Body r) = Inr student
          \<and> validator_Struct student = None
          \<and> name = Name student \<and> email = Email student \<and> age = Age student)
       \<and> name \<noteq> [] \<and> email \<noteq> [] \<and> age \<noteq> 0"
proof (cases "json_Decode parse (Body r)")
  case (Inl err)
  from New_decode_error [OF this, of storage db] show ?thesis by simp
next
  case (Inr student)
  show ?thesis
  proof (cases "validator_Struct student")
    case (Some validateErrs)
    from New_validation_error [OF Inr this, of storage db] show ?thesis by simp
  next
    case None
    obtain lastId err db' where
      "CreateStudent storage (Name student) (Email student) (Age student) db = ((lastId, err), db')"
      by (metis prod.exhaust)
    from New_create [OF Inr None this] Inr None show ?thesis
      by (simp add: validator_Struct_None)
  qed
qed

theorem New_create_arguments_witness:
  "Call_CreateStudent ''Ann'' ''ann@example.com'' 20 \<in>
     set (Calls (New memory_storage sample_parse \<lparr>Body = ann_body, PathValues = []\<rparr> (fresh [])))
   \<and> ''Ann'' \<noteq> [] \<and> ''ann@example.com'' \<noteq> [] \<and> (20 :: go_int) \<noteq> 0"
proof -
  have dec: "json_Decode sample_parse (Body \<lparr>Body = ann_body, PathValues = []\<rparr>) = Inr ann"
    by (simp add: json_Decode_Cons isSpace_def sample_parse_def ann_body_def)
  have val: "validator_Struct ann = None"
    by (simp add: validator_Struct_def ann_def)
  have cre: "CreateStudent memory_storage (Name ann) (Email ann) (Age ann) [] =
      ((1, None), [\<lparr>Id = 1, Name = ''Ann'', Email = ''ann@example.com'', Age = 20\<rparr>])"
    by (simp add: memory_storage_def ann_def)
  have "Call_CreateStudent ''Ann'' ''ann@example.com'' 20 \<in>
      set (Calls (New memory_storage sample_parse \<lparr>Body = ann_body, PathValues = []\<rparr> (fresh [])))"
    using New_create [OF dec val cre] by (simp add: ann_def)
  with New_create_arguments [of memory_storage sample_parse
      "\<lparr>Body = ann_body, PathValues = []\<rparr>" "[]"]
  show ?thesis by blast
qed

section \<open>GetById\<close>

text \<open>What GetById does once the path identifier has parsed.\<close>

lemma GetById_parsed:
  assumes "ParseInt (PathValue r ''id'') 10 64 = Inr intId"
    and "GetStudentById storage intId db = ((student, err), db')"
  shows "GetById storage ParseInt r (fresh db) =
           \<lparr>Writes = (case err of
                        Some e \<Rightarrow> [(500, PResponse (GeneralError e)), (200, PStudent student)]
                      | None \<Rightarrow> [(200, PStudent student)]),
            Calls = [Call_GetStudentById intId], Store = db'\<rparr>"
  using assms by (simp add: GetById_def effect_defs status_defs split: option.splits)

text \<open>
  C7. On a request whose path identifier does not parse as an integer, GetById writes
  one response, status 400 with the envelope of the parse error, and returns: no storage
  operation is invoked and the store is unchanged.
\<close>

theorem GetById_bad_id:
  assumes "ParseInt (PathValue r ''id'') 10 64 = Inl err"
  shows "GetById storage ParseInt r (fresh db) =
           \<lparr>Writes = [(400, PResponse \<lparr>Status = ''error'', Error = err_Error err\<rparr>)],
            Calls = [], Store = db\<rparr>"
  using assms
  by (simp add: GetById_def effect_defs status_defs GeneralError_def StatusError_def)

theorem GetById_bad_id_witness:
  \<open>GetById memory_storage sample_ParseInt \<lparr>Body = [], PathValues = [(''id'', ''abc'')]\<rparr>
     (fresh [\<lparr>Id = 1, Name = ''Ann'', Email = ''ann@example.com'', Age = 20\<rparr>]) =
     \<lparr>Writes = [(400, PResponse \<lparr>Status = ''error'',
                    Error = ''strconv.ParseInt: parsing "abc": invalid syntax''\<rparr>)],
      Calls = [],
      Store = [\<lparr>Id = 1, Name = ''Ann'', Email = ''ann@example.com'', Age = 20\<rparr>]\<rparr>\<close>
  using GetById_bad_id [of sample_ParseInt "\<lparr>Body = [], PathValues = [(''id'', ''abc'')]\<rparr>"
      \<open>wrapError ''strconv.ParseInt: parsing "abc": invalid syntax'' (errorString ''invalid syntax'')\<close>
      memory_storage "[\<lparr>Id = 1, Name = ''Ann'', Email = ''ann@example.com'', Age = 20\<rparr>]"]
  by (simp add: sample_ParseInt_def PathValue_def)

text \<open>
  C1, as the handler has it. On a request whose path identifier parses and whose storage
  call returns an error, GetById writes two responses in one invocation: the 500 error
  envelope, and after it (the branch of line 68 has no \<open>return\<close>) the 200 response with
  the Student the storage returned beside the error.
\<close>

theorem GetById_storage_error_writes_twice:
  assumes "ParseInt (PathValue r ''id'') 10 64 = Inr intId"
    and "GetStudentById storage intId db = ((student, Some err), db')"
  shows "GetById storage ParseInt r (fresh db) =
           \<lparr>Writes = [(500, PResponse \<lparr>Status = ''error'', Error = err_Error err\<rparr>),
                      (200, PStudent student)],
            Calls = [Call_GetStudentById intId], Store = db'\<rparr>
         \<and> length (Writes (GetById storage ParseInt r (fresh db))) = 2"
  using GetById_parsed [where ParseInt = ParseInt and r = r, OF assms]
  by (simp add: GeneralError_def StatusError_def)

theorem GetById_storage_error_writes_twice_witness:
  "GetById memory_storage sample_ParseInt \<lparr>Body = [], PathValues = [(''id'', ''99999'')]\<rparr>
     (fresh []) =
     \<lparr>Writes = [(500, PResponse \<lparr>Status = ''error'', Error = ''sql: no rows in result set''\<rparr>),
                (200, PStudent \<lparr>Id = 0, Name = [], Email = [], Age = 0\<rparr>)],
      Calls = [Call_GetStudentById 99999], Store = []\<rparr>"
proof -
  have p: "sample_ParseInt (PathValue \<lparr>Body = [], PathValues = [(''id'', ''99999'')]\<rparr> ''id'') 10 64 =
      Inr 99999"
    by (simp add: sample_ParseInt_def PathValue_def)
  have g: "GetStudentById memory_storage 99999 [] =
      ((zero_Student, Some (errorString ''sql: no rows in result set'')), [])"
    by (simp add: memory_storage_def)
  from GetById_storage_error_writes_twice [where ParseInt = sample_ParseInt
      and r = "\<lparr>Body = [], PathValues = [(''id'', ''99999'')]\<rparr>", OF p g]
  show ?thesis
    by (simp add: zero_Student_def)
qed

text \<open>
  The other half of C1 holds: when the storage call succeeds, GetById writes the 200
  response with the fetched Student and nothing else.
\<close>

lemma GetById_success:
  assumes "ParseInt (PathValue r ''id'') 10 64 = Inr intId"
    and "GetStudentById storage intId db = ((student, None), db')"
  shows "GetById storage ParseInt r (fresh db) =
           \<lparr>Writes = [(200, PStudent student)],
            Calls = [Call_GetStudentById intId], Store = db'\<rparr>"
  using GetById_parsed [where ParseInt = ParseInt and r = r, OF assms] by simp

end
